theory Spec2Isabelle
  imports Main "HOL-Library.Sublist"
begin

section \<open>JavaScript strings and promises\<close>

text \<open>
  A JavaScript string is modelled as a \<^typ>\<open>string\<close>, one \<^typ>\<open>char\<close> per code unit.
  The string methods the front end calls are given under their JavaScript names.
\<close>

definition startsWith :: "string \<Rightarrow> string \<Rightarrow> bool" where
  "startsWith s p = prefix p s"

definition endsWith :: "string \<Rightarrow> string \<Rightarrow> bool" where
  "endsWith s p = suffix p s"

definition js_includes :: "string \<Rightarrow> string \<Rightarrow> bool" where
  "js_includes s p = sublist p s"

text \<open>
  \<open>toLowerCase\<close> and \<open>trim\<close>, on code units below 256 (Latin-1): the letters with a lower
  case there are A to Z and the accented capitals 0xC0 to 0xDE (0xD7, the multiplication
  sign, apart); the white space and line terminators there are TAB, LF, VT, FF, CR, SPACE
  and NBSP.
\<close>

definition lower_char :: "char \<Rightarrow> char" where
  "lower_char c =
     (let n = (of_char c :: nat)
      in if (65 \<le> n \<and> n \<le> 90) \<or> (192 \<le> n \<and> n \<le> 222 \<and> n \<noteq> 215)
         then char_of (n + 32) else c)"

definition toLowerCase :: "string \<Rightarrow> string" where
  "toLowerCase s = map lower_char s"

definition white_space :: "char \<Rightarrow> bool" where
  "white_space c = ((of_char c :: nat) \<in> {9, 10, 11, 12, 13, 32, 160})"

definition trim :: "string \<Rightarrow> string" where
  "trim s = rev (dropWhile white_space (rev (dropWhile white_space s)))"

text \<open>
  \<open>s.split('\n')\<close>: the pieces of \<open>s\<close> between line feeds, never an empty array. (The
  branch for an empty recursive result is there for totality only.)
\<close>

fun split_nl :: "string \<Rightarrow> string list" where
  "split_nl [] = [[]]"
| "split_nl (c # cs) =
     (if c = CHR 0x0A then [] # split_nl cs
      else (case split_nl cs of
              [] \<Rightarrow> [[c]]
            | l # ls \<Rightarrow> (c # l) # ls))"

text \<open>A non-negative integer in a template literal: its decimal digits.\<close>

definition digit :: "nat \<Rightarrow> char" where
  "digit d = char_of (48 + d)"

function decimal :: "nat \<Rightarrow> string" where
  "decimal n = (if n < 10 then [digit n] else decimal (n div 10) @ [digit (n mod 10)])"
  by pat_completeness auto
termination
  by (relation "measure (\<lambda>n. n)") auto

text \<open>
  An awaited promise either resolves with a value or rejects; a rejection surfaces at the
  \<open>await\<close> as a thrown \<open>Error\<close>, of which the code only ever reads the message.
\<close>

datatype exn = Error string


datatype 'a promise = Rejects exn | Resolves 'a

section \<open>types/index.ts\<close>

datatype role = System | User | Assistant

record url_obj =
  url :: "string option"

datatype part_type = PText | PImageUrl

record content_part =
  ptype :: part_type
  part_text :: "string option"
  image_url :: "url_obj option"

datatype message_content = Text string | Parts "content_part list"

record chat_message =
  msg_id :: "string option"
  role :: role
  content :: message_content
  msg_provider :: "string option"
  msg_model :: "string option"
  msg_created_at :: "string option"



section \<open>hooks/useConversations.ts\<close>




section \<open>lib/api.ts: fetchJson and the provider endpoints\<close>

text \<open>
  The \<open>Response\<close> of the Fetch API, as far as the client reads it: \<open>res.ok\<close>,
  \<open>res.status\<close>, the promises \<open>res.text()\<close> and \<open>res.json()\<close>, and the reader of
  \<open>res.body\<close> (absent when there is no body). The outcome of an HTTP exchange is an input
  of the model: the promise \<open>fetch\<close> returns, rejected on a network failure.
\<close>

record ('a, 'r) response =
  ok :: bool
  status :: nat
  res_text :: "string promise"
  res_json :: "'a promise"
  res_body :: "'r option"

definition fetchJson :: "('a, 'r) response promise \<Rightarrow> 'a promise" where
  "fetchJson fetched =
     (case fetched of
        Rejects err \<Rightarrow> Rejects err
      | Resolves res \<Rightarrow>
          if \<not> ok res
          then (case res_text res of
                  Rejects err \<Rightarrow> Rejects err
                | Resolves error_text \<Rightarrow>
                    Rejects (Error (''API Error '' @ decimal (status res) @ '': '' @ error_text)))
          else res_json res)"

record provider =
  name :: string
  display_name :: string
  base_url :: string
  api_key :: string
  default_model :: string
  access_method :: string
  icon :: string
  is_custom :: bool
  description :: "string option"
  recommended :: "bool option"
  models :: "string list option"

record provider_test_result =
  success :: bool
  message :: string
  response_time_ms :: "nat option"

text \<open>
  \<open>listProviders\<close> and \<open>testProvider\<close>: \<open>fetchJson\<close> on \<open>/providers\<close> and on
  \<open>/providers/<name>/test\<close>; the argument \<open>fetched\<close> is the outcome of that exchange.
\<close>

definition listProviders :: "(provider list, 'r) response promise \<Rightarrow> provider list promise" where
  "listProviders fetched = fetchJson fetched"

definition testProvider ::
  "string \<Rightarrow> (provider_test_result, 'r) response promise \<Rightarrow> provider_test_result promise" where
  "testProvider n fetched = fetchJson fetched"

section \<open>hooks/useProviders.ts\<close>

definition testConnection ::
  "string \<Rightarrow> (provider_test_result, 'r) response promise \<Rightarrow> provider_test_result promise" where
  "testConnection n fetched = testProvider n fetched"

section \<open>lib/api.ts: streamChat\<close>

text \<open>
  The value \<open>JSON.parse\<close> returns. A number is kept abstract (type \<open>'n\<close>): the code
  never computes with one. \<open>undefined\<close> is not a JSON value; a JavaScript value that may be
  \<open>undefined\<close> is a \<open>'n json option\<close>, \<open>None\<close> for \<open>undefined\<close>.
\<close>

datatype 'n json =
    JNull
  | JBool bool
  | JNum 'n
  | JStr string
  | JArr "'n json list"
  | JObj "(string \<times> 'n json) list"

type_synonym 'n jsval = "'n json option"

text \<open>
  What the code takes from the JavaScript runtime, as parameters of the model:
  \<open>JSON.parse\<close> (\<open>None\<close> when it throws a \<open>SyntaxError\<close>), whether a number is truthy
  (not zero), and the string a value that is not a string turns into when it is added to a
  string. An object is returned as the list of its own properties, each key once.
\<close>

record 'n runtime =
  JSON_parse :: "string \<Rightarrow> 'n json option"
  number_truthy :: "'n \<Rightarrow> bool"
  ToString :: "'n jsval \<Rightarrow> string"

text \<open>
  \<open>data.k\<close> for a \<open>data\<close> that is not \<open>null\<close>, and for the six property names the loop
  reads (\<open>type\<close>, \<open>content\<close>, \<open>id\<close>, \<open>conversation_id\<close>, \<open>message\<close>, \<open>error\<close>): an
  object's own property, and \<open>undefined\<close> on a boolean, a number, a string or an array.
\<close>

fun field :: "'n json \<Rightarrow> string \<Rightarrow> 'n jsval" where
  "field (JObj props) k = map_of props k"
| "field v k = None"

fun truthy :: "'n runtime \<Rightarrow> 'n jsval \<Rightarrow> bool" where
  "truthy rt None = False"
| "truthy rt (Some JNull) = False"
| "truthy rt (Some (JBool b)) = b"
| "truthy rt (Some (JNum n)) = number_truthy rt n"
| "truthy rt (Some (JStr s)) = (s \<noteq> [])"
| "truthy rt (Some (JArr vs)) = True"
| "truthy rt (Some (JObj props)) = True"

text \<open>The four callbacks of \<open>ChatStreamOptions\<close>, each with the argument it is called with.\<close>

datatype 'n sink_call =
    OnToken "'n jsval"
  | OnConversationId "'n jsval"
  | OnDone "'n jsval"
  | OnError "'n jsval"

text \<open>
  The body of the \<open>try\<close> after \<open>JSON.parse\<close>: the callbacks it invokes, in order (at most
  one). On \<open>null\<close> the first \<open>data.type\<close> throws a \<open>TypeError\<close>, which the \<open>catch\<close>
  swallows.
\<close>

fun dispatch :: "'n runtime \<Rightarrow> 'n json \<Rightarrow> 'n sink_call list" where
  "dispatch rt JNull = []"
| "dispatch rt data =
     (if field data ''type'' = Some (JStr ''token'') then [OnToken (field data ''content'')]
      else if field data ''type'' = Some (JStr ''conversation_id'')
        then [OnConversationId (field data ''id'')]
      else if field data ''type'' = Some (JStr ''done'')
        then [OnDone (field data ''conversation_id'')]
      else if field data ''type'' = Some (JStr ''error'') then [OnError (field data ''message'')]
      else if truthy rt (field data ''error'') then [OnError (field data ''error'')]
      else [])"

text \<open>One iteration of \<open>for (const line of lines)\<close>.\<close>

definition process_line :: "'n runtime \<Rightarrow> string \<Rightarrow> 'n sink_call list" where
  "process_line rt line =
     (if \<not> startsWith line ''data: '' then []
      else (case JSON_parse rt (drop 6 line) of
              None \<Rightarrow> []
            | Some data \<Rightarrow> dispatch rt data))"

text \<open>
  One read that delivered a chunk: \<open>buffer += chunk\<close>, \<open>lines = buffer.split('\n')\<close>,
  \<open>buffer = lines.pop() || ''\<close>. The chunk is the text
  \<open>decoder.decode(value, {stream: true})\<close> returns for that read. The result is the lines
  the \<open>for\<close> loop then visits, and the new buffer.
\<close>

definition read_step :: "string \<Rightarrow> string \<Rightarrow> string list \<times> string" where
  "read_step buffer chunk =
     (let lines = split_nl (buffer @ chunk)
      in if lines = [] then ([], []) else (butlast lines, last lines))"

text \<open>
  While \<open>streamChat\<close> awaits \<open>reader.read()\<close> other tasks of the page run (a click on the
  stop button, say). The body of a response is therefore a timeline: the chunks the reader
  delivers, interleaved with events \<open>'e\<close> that happen elsewhere, and then the way the
  stream ends: \<open>done\<close>, or a read that rejects. The loop yields the trace of what
  happened, in order: the callbacks it invoked, and the events elsewhere.
\<close>

datatype 'e arrival = Chunk string | Elsewhere 'e

datatype stream_end = Closed | ReadRejects exn

datatype ('n, 'e) occurrence = Call "'n sink_call" | Outside 'e

fun read_loop :: "'n runtime \<Rightarrow> string \<Rightarrow> 'e arrival list \<Rightarrow> ('n, 'e) occurrence list" where
  "read_loop rt buffer [] = []"
| "read_loop rt buffer (Elsewhere e # rest) = Outside e # read_loop rt buffer rest"
| "read_loop rt buffer (Chunk chunk # rest) =
     (case read_step buffer chunk of
        (lines, buffer') \<Rightarrow>
          map Call (concat (map (process_line rt) lines)) @ read_loop rt buffer' rest)"

text \<open>
  \<open>streamChat\<close>: the trace, and the exception it throws if any (\<open>None\<close> when it returns).
  The request body plays no part in what the function does with the response.
\<close>

definition streamChat ::
  "'n runtime \<Rightarrow> ('a, 'e arrival list \<times> stream_end) response promise
     \<Rightarrow> ('n, 'e) occurrence list \<times> exn option" where
  "streamChat rt fetched =
     (case fetched of
        Rejects err \<Rightarrow> ([], Some err)
      | Resolves res \<Rightarrow>
          if \<not> ok res then ([], Some (Error (''Chat API error: '' @ decimal (status res))))
          else (case res_body res of
                  None \<Rightarrow> ([], Some (Error ''No response body''))
                | Some (timeline, ending) \<Rightarrow>
                    (read_loop rt [] timeline,
                     case ending of Closed \<Rightarrow> None | ReadRejects err \<Rightarrow> Some err)))"

section \<open>hooks/useChat.ts\<close>

text \<open>
  The hook's state: the three \<open>useState\<close> cells and the two refs. \<open>error\<close> is \<open>None\<close>
  for \<open>null\<close>. The callbacks store what the stream handed them, whatever its type.
\<close>

record 'n chat_state =
  chat_messages :: "chat_message list"
  isStreaming :: bool
  error :: "'n jsval option"
  abortRef :: bool
  convIdRef :: "'n jsval"


definition clearMessages :: "'n chat_state \<Rightarrow> 'n chat_state" where
  "clearMessages st = st\<lparr>chat_messages := [], error := None\<rparr>"







text \<open>The one thing the user can do to a running session: press stop.\<close>

datatype user_action = Stop










section \<open>App.tsx: the chat settings\<close>

text \<open>
  \<open>ChatSettings\<close>; \<open>'p\<close> is the type of the numeric generation parameters, which the
  modelled code only copies. \<open>provider_options\<close> is optional, and so is each flag of an
  entry. A \<open>Partial<ChatSettings>\<close> has every field optional.
\<close>

record provider_option =
  free_only :: "bool option"
  auto_choose :: "bool option"

record 'p chat_settings =
  provider :: string
  model :: string
  temperature :: 'p
  top_p :: 'p
  max_tokens :: 'p
  presence_penalty :: 'p
  frequency_penalty :: 'p
  provider_options :: "(string \<rightharpoonup> provider_option) option"

record 'p partial_settings =
  new_provider :: "string option"
  new_model :: "string option"
  new_temperature :: "'p option"
  new_top_p :: "'p option"
  new_max_tokens :: "'p option"
  new_presence_penalty :: "'p option"
  new_frequency_penalty :: "'p option"
  new_provider_options :: "(string \<rightharpoonup> provider_option) option"

definition no_change :: "'p partial_settings" where
  "no_change =
     \<lparr>new_provider = None, new_model = None, new_temperature = None, new_top_p = None,
      new_max_tokens = None, new_presence_penalty = None, new_frequency_penalty = None,
      new_provider_options = None\<rparr>"

definition or_else :: "'a option \<Rightarrow> 'a \<Rightarrow> 'a" where
  "or_else x d = (case x of None \<Rightarrow> d | Some v \<Rightarrow> v)"

text \<open>
  \<open>handleSettingsChange\<close>: \<open>{ ...prev, ...partial }\<close> (the copy written to
  \<open>localStorage\<close> is not modelled).
\<close>

definition handleSettingsChange :: "'p chat_settings \<Rightarrow> 'p partial_settings \<Rightarrow> 'p chat_settings" where
  "handleSettingsChange prev partial =
     \<lparr>provider = or_else (new_provider partial) (provider prev),
      model = or_else (new_model partial) (model prev),
      temperature = or_else (new_temperature partial) (temperature prev),
      top_p = or_else (new_top_p partial) (top_p prev),
      max_tokens = or_else (new_max_tokens partial) (max_tokens prev),
      presence_penalty = or_else (new_presence_penalty partial) (presence_penalty prev),
      frequency_penalty = or_else (new_frequency_penalty partial) (frequency_penalty prev),
      provider_options =
        (case new_provider_options partial of
           None \<Rightarrow> provider_options prev
         | Some opts \<Rightarrow> Some opts)\<rparr>"

section \<open>components/SettingsPanel.tsx\<close>

text \<open>
  The panel: the settings it is rendered with, and its own state. An event handler reads
  the settings of the render it belongs to and sends patches to \<open>handleSettingsChange\<close>,
  which applies them in order.
\<close>

record 'p panel =
  settings :: "'p chat_settings"
  expanded :: "string option"
  results :: "string \<rightharpoonup> provider_test_result"
  testing :: "string option"
  modelSearch :: string
  dynamicModels :: "string \<rightharpoonup> string list"

datatype option_key = FreeOnly | AutoChoose

definition flag :: "option_key \<Rightarrow> provider_option \<Rightarrow> bool option" where
  "flag key opt = (case key of FreeOnly \<Rightarrow> free_only opt | AutoChoose \<Rightarrow> auto_choose opt)"

text \<open>\<open>settings.provider_options?.[providerName]?.[key] ?? false\<close>\<close>

definition getOption :: "'p chat_settings \<Rightarrow> string \<Rightarrow> option_key \<Rightarrow> bool" where
  "getOption s providerName key =
     (case provider_options s of
        None \<Rightarrow> False
      | Some opts \<Rightarrow>
          (case opts providerName of
             None \<Rightarrow> False
           | Some opt \<Rightarrow> or_else (flag key opt) False))"

text \<open>\<open>updateOption\<close>: the patch it sends.\<close>

definition updateOption ::
  "'p chat_settings \<Rightarrow> string \<Rightarrow> option_key \<Rightarrow> bool \<Rightarrow> 'p partial_settings" where
  "updateOption s providerName key val =
     (let options = or_else (provider_options s) Map.empty;
          current = or_else (options providerName) \<lparr>free_only = None, auto_choose = None\<rparr>;
          entry = (case key of
                     FreeOnly \<Rightarrow> current\<lparr>free_only := Some val\<rparr>
                   | AutoChoose \<Rightarrow> current\<lparr>auto_choose := Some val\<rparr>)
      in no_change\<lparr>new_provider_options := Some (options(providerName \<mapsto> entry))\<rparr>)"

definition isSelected :: "'p panel \<Rightarrow> provider \<Rightarrow> bool" where
  "isSelected st p = (provider (settings st) = name p)"

definition isExpanded :: "'p panel \<Rightarrow> provider \<Rightarrow> bool" where
  "isExpanded st p = (expanded st = Some (name p))"

text \<open>The \<open>onClick\<close> of a provider's \<open>SelectionCard\<close>.\<close>

definition card_click :: "'p panel \<Rightarrow> provider \<Rightarrow> 'p panel" where
  "card_click st p =
     (let st1 =
            (if \<not> isSelected st p
             then st\<lparr>settings := handleSettingsChange (settings st)
                        (no_change\<lparr>new_provider := Some (name p),
                           new_model := Some (if getOption (settings st) (name p) AutoChoose
                                              then ''openrouter/auto'' else default_model p)\<rparr>)\<rparr>
             else st)
      in st1\<lparr>expanded := (if isExpanded st p then None else Some (name p))\<rparr>)"

text \<open>The \<open>onChange\<close> of the two check boxes of a provider's details.\<close>

definition free_only_change :: "'p panel \<Rightarrow> provider \<Rightarrow> bool \<Rightarrow> 'p panel" where
  "free_only_change st p checked =
     st\<lparr>settings := handleSettingsChange (settings st)
           (updateOption (settings st) (name p) FreeOnly checked)\<rparr>"

definition auto_choose_change :: "'p panel \<Rightarrow> provider \<Rightarrow> bool \<Rightarrow> 'p panel" where
  "auto_choose_change st p checked =
     (let s1 = handleSettingsChange (settings st)
                 (updateOption (settings st) (name p) AutoChoose checked);
          s2 = (if isSelected st p
                then handleSettingsChange s1
                       (no_change\<lparr>new_model :=
                          Some (if checked then ''openrouter/auto'' else default_model p)\<rparr>)
                else s1)
      in st\<lparr>settings := s2\<rparr>)"

text \<open>The button of one model of the list, and the "use provider" button.\<close>

definition model_click :: "'p panel \<Rightarrow> provider \<Rightarrow> string \<Rightarrow> 'p panel" where
  "model_click st p m =
     (if isSelected st p
      then st\<lparr>settings := handleSettingsChange (settings st) (no_change\<lparr>new_model := Some m\<rparr>)\<rparr>
      else st)"

definition use_provider_click :: "'p panel \<Rightarrow> provider \<Rightarrow> 'p panel" where
  "use_provider_click st p =
     st\<lparr>settings := handleSettingsChange (settings st)
           (no_change\<lparr>new_provider := Some (name p), new_model := Some (default_model p)\<rparr>)\<rparr>"

text \<open>
  The model selection area of a provider's details. \<open>Array.from(new Set(xs))\<close> keeps the
  first occurrence of each element, in order.
\<close>

definition combinedModels :: "'p panel \<Rightarrow> provider \<Rightarrow> string list" where
  "combinedModels st p =
     (let baseModels = or_else (models p) [];
          currentDynamicModels = or_else (dynamicModels st (name p)) []
      in rev (remdups (rev (baseModels @ currentDynamicModels))))"

definition free_named :: "string \<Rightarrow> bool" where
  "free_named m =
     (js_includes (toLowerCase m) ''free'' \<or> endsWith (toLowerCase m) '':free'')"

definition filtered :: "'p panel \<Rightarrow> provider \<Rightarrow> string list" where
  "filtered st p =
     (let f1 = (if getOption (settings st) (name p) FreeOnly
                then filter free_named (combinedModels st p) else combinedModels st p)
      in if modelSearch st \<noteq> []
         then filter (\<lambda>m. js_includes (toLowerCase m) (toLowerCase (modelSearch st))) f1
         else f1)"




text \<open>
  \<open>test\<close>: \<open>try { ... } catch { ... } finally { ... }\<close> around the connectivity test of
  provider \<open>n\<close>; the state it leaves and the exception it throws, if any.
\<close>

definition test ::
  "'p panel \<Rightarrow> string \<Rightarrow> (provider_test_result, 'r) response promise \<Rightarrow> 'p panel \<times> exn option" where
  "test st n fetched =
     (let st1 = st\<lparr>testing := Some n\<rparr>;
          st2 = (case testConnection n fetched of
                   Resolves r \<Rightarrow> st1\<lparr>results := (results st1)(n \<mapsto> r)\<rparr>
                 | Rejects err \<Rightarrow>
                     st1\<lparr>results := (results st1)
                           (n \<mapsto> \<lparr>success = False, message = ''Failed'',
                                  response_time_ms = None\<rparr>)\<rparr>)
      in (st2\<lparr>testing := None\<rparr>, None))"

text \<open>The value of the read-only API key field of a provider's details.\<close>

definition api_key_field :: "provider \<Rightarrow> string" where
  "api_key_field p = api_key p"

text \<open>
  \<open>handleRefreshModels\<close>: the fetched models of a provider are replaced when the request
  succeeds, and kept when it fails in any way (the failure is only logged).
\<close>

definition handleRefreshModels ::
  "'p panel \<Rightarrow> string \<Rightarrow> (string list, 'r) response promise \<Rightarrow> 'p panel" where
  "handleRefreshModels st providerName fetched =
     (case fetched of
        Rejects err \<Rightarrow> st
      | Resolves res \<Rightarrow>
          if ok res
          then (case res_json res of
                  Rejects err \<Rightarrow> st
                | Resolves ms \<Rightarrow> st\<lparr>dynamicModels := (dynamicModels st)(providerName \<mapsto> ms)\<rparr>)
          else st)"

text \<open>
  The text input that stands for the model list of a provider without models, the model
  name input of the parameters (on blur or Enter, with the text typed so far), and the
  sliders and the number input of the parameters.
\<close>

definition model_input_change :: "'p panel \<Rightarrow> provider \<Rightarrow> string \<Rightarrow> 'p panel" where
  "model_input_change st p v =
     (if isSelected st p
      then st\<lparr>settings := handleSettingsChange (settings st) (no_change\<lparr>new_model := Some v\<rparr>)\<rparr>
      else st)"

definition model_name_commit :: "'p panel \<Rightarrow> string \<Rightarrow> 'p panel" where
  "model_name_commit st mi =
     (if trim mi \<noteq> []
      then st\<lparr>settings :=
             handleSettingsChange (settings st) (no_change\<lparr>new_model := Some (trim mi)\<rparr>)\<rparr>
      else st)"

datatype parameter = Temperature | TopP | MaxTokens | PresencePenalty | FrequencyPenalty

definition parameter_change :: "'p panel \<Rightarrow> parameter \<Rightarrow> 'p \<Rightarrow> 'p panel" where
  "parameter_change st k v =
     st\<lparr>settings := handleSettingsChange (settings st)
           (case k of
              Temperature \<Rightarrow> no_change\<lparr>new_temperature := Some v\<rparr>
            | TopP \<Rightarrow> no_change\<lparr>new_top_p := Some v\<rparr>
            | MaxTokens \<Rightarrow> no_change\<lparr>new_max_tokens := Some v\<rparr>
            | PresencePenalty \<Rightarrow> no_change\<lparr>new_presence_penalty := Some v\<rparr>
            | FrequencyPenalty \<Rightarrow> no_change\<lparr>new_frequency_penalty := Some v\<rparr>)\<rparr>"

text \<open>
  The controls of the panel that act on the settings or on the panel's state, each with
  the condition under which the panel renders it, and the effect of using it (none when
  the control is not there). A control of a provider's card comes with that provider; the
  inputs of the parameters are there whatever the provider. (The form that adds a provider
  and the button that deletes one act on the list of providers only.)
\<close>

datatype 'p panel_action =
    ClickCard
  | ChangeFreeOnly bool
  | ChangeAutoChoose bool
  | ClickModel string
  | ClickUseProvider
  | EditModelInput string
  | ChangeSearch string
  | RefreshModels "(string list, unit) response promise"
  | RunTest "(provider_test_result, unit) response promise"
  | CommitModelName string
  | ChangeParameter parameter 'p

definition rendered :: "'p panel \<Rightarrow> provider \<Rightarrow> 'p panel_action \<Rightarrow> bool" where
  "rendered st p a =
     (case a of
        ClickCard \<Rightarrow> True
      | ChangeFreeOnly checked \<Rightarrow>
          isExpanded st p
          \<and> (0 < length (or_else (models p) [])
               \<or> 0 < length (or_else (dynamicModels st (name p)) []))
      | ChangeAutoChoose checked \<Rightarrow> isExpanded st p \<and> name p = ''openrouter''
      | ClickModel m \<Rightarrow> isExpanded st p \<and> m \<in> set (filtered st p)
      | ClickUseProvider \<Rightarrow> isExpanded st p \<and> \<not> isSelected st p
      | EditModelInput v \<Rightarrow> isExpanded st p \<and> length (combinedModels st p) = 0
      | ChangeSearch q \<Rightarrow> isExpanded st p
      | RefreshModels fetched \<Rightarrow> isExpanded st p
      | RunTest fetched \<Rightarrow> isExpanded st p \<and> testing st \<noteq> Some (name p)
      | CommitModelName mi \<Rightarrow> True
      | ChangeParameter k v \<Rightarrow> True)"

definition panel_step :: "'p panel \<Rightarrow> provider \<times> 'p panel_action \<Rightarrow> 'p panel" where
  "panel_step st pa =
     (case pa of
        (p, a) \<Rightarrow>
          if \<not> rendered st p a then st
          else (case a of
                  ClickCard \<Rightarrow> card_click st p
                | ChangeFreeOnly checked \<Rightarrow> free_only_change st p checked
                | ChangeAutoChoose checked \<Rightarrow> auto_choose_change st p checked
                | ClickModel m \<Rightarrow> model_click st p m
                | ClickUseProvider \<Rightarrow> use_provider_click st p
                | EditModelInput v \<Rightarrow> model_input_change st p v
                | ChangeSearch q \<Rightarrow> st\<lparr>modelSearch := q\<rparr>
                | RefreshModels fetched \<Rightarrow> handleRefreshModels st (name p) fetched
                | RunTest fetched \<Rightarrow> fst (test st (name p) fetched)
                | CommitModelName mi \<Rightarrow> model_name_commit st mi
                | ChangeParameter k v \<Rightarrow> parameter_change st k v))"

section \<open>hooks/useProviders.ts: loading the providers\<close>

record providers_state =
  providers :: "provider list"
  providers_isLoading :: bool

definition loadProviders ::
  "providers_state \<Rightarrow> (provider list, 'r) response promise \<Rightarrow> providers_state" where
  "loadProviders st fetched =
     (case listProviders fetched of
        Resolves data \<Rightarrow> st\<lparr>providers := data, providers_isLoading := False\<rparr>
      | Rejects err \<Rightarrow> st\<lparr>providers_isLoading := False\<rparr>)"

section \<open>The provider registry of the back end\<close>

text \<open>
  Modelled from the spec: the provider-list operation of the back end (the Provider
  Registry's \<open>list()\<close>, answering \<open>GET /providers\<close>), whose code is not among the
  front end's sources. The spec gives it a stable order, the built-in providers first and
  then the user-added ones in the order of their creation, and says that credentials are
  never echoed back in list responses: the model leaves the API key of every listed record
  blank. The stored records are written with the front end's \<open>Provider\<close> type, \<open>api_key\<close>
  holding the credential.
\<close>

definition registry_list :: "provider list \<Rightarrow> provider list" where
  "registry_list stored =
     map (\<lambda>p. p\<lparr>api_key := []\<rparr>)
       (filter (\<lambda>p. \<not> is_custom p) stored @ filter is_custom stored)"

text \<open>
  Modelled from the spec: the HTTP response of that operation, a success whose JSON body is
  the list.
\<close>

definition list_response :: "provider list \<Rightarrow> (provider list, unit) response" where
  "list_response stored =
     \<lparr>ok = True, status = 200, res_text = Resolves [], res_json = Resolves (registry_list stored),
      res_body = None\<rparr>"

text \<open>Two registries that differ in nothing but the credentials they hold.\<close>

definition same_but_credentials :: "provider list \<Rightarrow> provider list \<Rightarrow> bool" where
  "same_but_credentials a b =
     (map (\<lambda>p. p\<lparr>api_key := []\<rparr>) a = map (\<lambda>p. p\<lparr>api_key := []\<rparr>) b)"

section \<open>What is observed of a stream and of a session\<close>

text \<open>
  The text on the wire is the concatenation of the chunks. Its complete lines are the
  lines that a line feed ends; what follows the last line feed is no line yet.
\<close>

definition complete_lines :: "string \<Rightarrow> string list" where
  "complete_lines t = butlast (split_nl t)"

fun chunks_of :: "'e arrival list \<Rightarrow> string list" where
  "chunks_of [] = []"
| "chunks_of (Chunk c # rest) = c # chunks_of rest"
| "chunks_of (Elsewhere e # rest) = chunks_of rest"

definition wire_text :: "'e arrival list \<Rightarrow> string" where
  "wire_text timeline = concat (chunks_of timeline)"


text \<open>The callbacks of a trace, and the arguments of its \<open>onToken\<close> calls.\<close>

fun calls_of :: "('n, 'e) occurrence list \<Rightarrow> 'n sink_call list" where
  "calls_of [] = []"
| "calls_of (Call c # rest) = c # calls_of rest"
| "calls_of (Outside e # rest) = calls_of rest"



text \<open>
  The shapes of an event the description of the stream names: a \<open>type\<close> that is one of
  the four known strings, or an \<open>error\<close> property that is truthy.
\<close>

definition recognised :: "'n runtime \<Rightarrow> 'n json \<Rightarrow> bool" where
  "recognised rt data =
     (field data ''type'' = Some (JStr ''token'')
      \<or> field data ''type'' = Some (JStr ''conversation_id'')
      \<or> field data ''type'' = Some (JStr ''done'')
      \<or> field data ''type'' = Some (JStr ''error'')
      \<or> truthy rt (field data ''error''))"








definition panel_inv :: "'p panel \<Rightarrow> bool" where
  "panel_inv st = (case expanded st of None \<Rightarrow> True | Some n \<Rightarrow> provider (settings st) = n)"

section \<open>Reference definitions and example values\<close>



text \<open>
  The payloads of the examples, an event line as the server writes it, and a runtime for
  the examples, with natural numbers for numbers: \<open>JSON.parse\<close> on these payloads and
  on \<open>null\<close> (on any other text of the examples it throws), and the string of a value that
  is not an array.
\<close>

definition token_He :: string where
  \<open>token_He = ''{"type":"token","content":"He"}''\<close>

definition token_llo :: string where
  \<open>token_llo = ''{"type":"token","content":"llo"}''\<close>

definition conversation_c1 :: string where
  \<open>conversation_c1 = ''{"type":"conversation_id","id":"c1"}''\<close>

definition done_c1 :: string where
  \<open>done_c1 = ''{"type":"done","conversation_id":"c1"}''\<close>

definition error_boom :: string where
  \<open>error_boom = ''{"type":"error","message":"boom"}''\<close>

definition error_only :: string where
  \<open>error_only = ''{"error":"bad"}''\<close>

definition ping :: string where
  \<open>ping = ''{"type":"ping"}''\<close>

definition event :: "string \<Rightarrow> string" where
  "event p = ''data: '' @ p @ [CHR 0x0A]"

definition example_parse :: "string \<Rightarrow> nat json option" where
  "example_parse s =
     (if s = token_He
        then Some (JObj [(''type'', JStr ''token''), (''content'', JStr ''He'')])
      else if s = token_llo
        then Some (JObj [(''type'', JStr ''token''), (''content'', JStr ''llo'')])
      else if s = conversation_c1
        then Some (JObj [(''type'', JStr ''conversation_id''), (''id'', JStr ''c1'')])
      else if s = done_c1
        then Some (JObj [(''type'', JStr ''done''), (''conversation_id'', JStr ''c1'')])
      else if s = error_boom
        then Some (JObj [(''type'', JStr ''error''), (''message'', JStr ''boom'')])
      else if s = error_only
        then Some (JObj [(''error'', JStr ''bad'')])
      else if s = ping
        then Some (JObj [(''type'', JStr ''ping'')])
      else if s = ''null'' then Some JNull
      else None)"

definition example_ToString :: "nat jsval \<Rightarrow> string" where
  "example_ToString v =
     (case v of
        None \<Rightarrow> ''undefined''
      | Some JNull \<Rightarrow> ''null''
      | Some (JBool b) \<Rightarrow> (if b then ''true'' else ''false'')
      | Some (JNum n) \<Rightarrow> decimal n
      | Some (JStr s) \<Rightarrow> s
      | Some (JArr vs) \<Rightarrow> []
      | Some (JObj props) \<Rightarrow> ''[object Object]'')"

definition example_runtime :: "nat runtime" where
  "example_runtime =
     \<lparr>JSON_parse = example_parse, number_truthy = (\<lambda>n. n \<noteq> 0),
      ToString = example_ToString\<rparr>"


definition example_settings :: "nat chat_settings" where
  "example_settings =
     \<lparr>provider = ''openrouter'', model = ''google/gemini-2.0-flash-exp:free'',
      temperature = 1, top_p = 1, max_tokens = 4096, presence_penalty = 0,
      frequency_penalty = 0, provider_options = None\<rparr>"

definition example_panel :: "nat panel" where
  "example_panel =
     \<lparr>settings = example_settings, expanded = None, results = Map.empty, testing = None,
      modelSearch = [], dynamicModels = Map.empty\<rparr>"

definition example_provider :: "string \<Rightarrow> string \<Rightarrow> string list \<Rightarrow> provider" where
  "example_provider n d ms =
     \<lparr>name = n, display_name = n, base_url = ''http://localhost'', api_key = [],
      default_model = d, access_method = ''api'', icon = [], is_custom = False,
      description = None, recommended = None, models = Some ms\<rparr>"


definition example_response ::
  "user_action arrival list \<Rightarrow> stream_end
     \<Rightarrow> (unit, user_action arrival list \<times> stream_end) response" where
  "example_response timeline ending =
     \<lparr>ok = True, status = 200, res_text = Resolves [], res_json = Resolves (),
      res_body = Some (timeline, ending)\<rparr>"

definition noisy_timeline :: "user_action arrival list" where
  "noisy_timeline =
     [Chunk ('': keep-alive\<newline>'' @ event ''oops'' @ take 9 (event ping)),
      Chunk (drop 9 (event ping) @ event ''null'' @ event token_He)]"





definition free_catalog :: provider where
  "free_catalog = example_provider ''openrouter'' ''d'' [''a:free'', ''b'', ''c:free'']"



definition auto_panel :: "nat panel" where
  "auto_panel =
     example_panel\<lparr>settings := example_settings
       \<lparr>provider := ''ollama'', model := ''llama3'',
        provider_options :=
          Some [''openrouter'' \<mapsto> \<lparr>free_only = Some True, auto_choose = Some True\<rparr>]\<rparr>\<rparr>"

definition example_registry :: "provider list" where
  "example_registry =
     [(example_provider ''mine'' ''m1'' [])\<lparr>api_key := ''sk-mine'', is_custom := True\<rparr>,
      (example_provider ''openrouter'' ''d'' [''a:free''])\<lparr>api_key := ''sk-or-123''\<rparr>]"


section \<open>Properties of useConversations\<close>





section \<open>Properties of the connectivity test\<close>

lemma fetchJson_resolves_iff:
  "fetchJson fetched = Resolves r \<longleftrightarrow>
     (\<exists>res. fetched = Resolves res \<and> ok res \<and> res_json res = Resolves r)"
  by (auto simp: fetchJson_def split: promise.splits)

text \<open>
  The client function itself does reject when the exchange fails: it is the panel's
  \<open>test\<close> that turns a rejection into a result.
\<close>

lemma testConnection_rejects:
  "testConnection n (Rejects err) = Rejects err"
  by (simp add: testConnection_def testProvider_def fetchJson_def)




section \<open>Properties of the chat hook: messages and attachments\<close>











section \<open>Properties of the read loop\<close>

text \<open>
  Splitting does not depend on where the chunks are cut: the lines the loop visits, over all
  the reads, are the complete lines of the text on the wire.
\<close>

lemma split_nl_nonempty: "split_nl s \<noteq> []"
  by (induction s) (auto split: list.splits)

lemma split_nl_append:
  "split_nl (x @ y) = butlast (split_nl x) @ split_nl (last (split_nl x) @ y)"
proof (induction x)
  case Nil
  show ?case by simp
next
  case (Cons c cs)
  obtain l ls where s: "split_nl cs = l # ls"
    using split_nl_nonempty [of cs] by (cases "split_nl cs") auto
  show ?case
  proof (cases "c = CHR 0x0A")
    case True
    then show ?thesis
      using Cons.IH split_nl_nonempty [of cs] by simp
  next
    case False
    show ?thesis
    proof (cases "ls = []")
      case True
      with False s Cons.IH show ?thesis
        using split_nl_nonempty [of "l @ y"]
        by (cases "split_nl (l @ y)") auto
    next
      case ne: False
      with False s Cons.IH show ?thesis
        by auto
    qed
  qed
qed

lemma split_nl_no_newline: "CHR 0x0A \<notin> set s \<Longrightarrow> split_nl s = [s]"
  by (induction s) auto

lemma split_nl_lines_no_newline: "l \<in> set (split_nl s) \<Longrightarrow> CHR 0x0A \<notin> set l"
proof (induction s arbitrary: l)
  case Nil
  then show ?case by simp
next
  case (Cons c cs)
  obtain l0 ls where s: "split_nl cs = l0 # ls"
    using split_nl_nonempty [of cs] by (cases "split_nl cs") auto
  show ?case
  proof (cases "c = CHR 0x0A")
    case True
    with Cons show ?thesis by auto
  next
    case False
    with Cons.prems s have "l = c # l0 \<or> l \<in> set ls" by auto
    then show ?thesis
    proof
      assume "l = c # l0"
      moreover have "CHR 0x0A \<notin> set l0" using Cons.IH [of l0] s by simp
      ultimately show ?thesis using False by auto
    next
      assume "l \<in> set ls"
      then show ?thesis using Cons.IH [of l] s by simp
    qed
  qed
qed

lemma last_split_nl_no_newline: "CHR 0x0A \<notin> set (last (split_nl s))"
  using split_nl_lines_no_newline [of "last (split_nl s)" s] split_nl_nonempty [of s]
  by simp

lemma complete_lines_append:
  "complete_lines (x @ y) = complete_lines x @ complete_lines (last (split_nl x) @ y)"
  unfolding complete_lines_def
  by (simp add: split_nl_append [of x y] butlast_append split_nl_nonempty)

lemma read_step_eq:
  "read_step buffer chunk = (complete_lines (buffer @ chunk), last (split_nl (buffer @ chunk)))"
  by (simp add: read_step_def Let_def complete_lines_def split_nl_nonempty)

lemma calls_of_append: "calls_of (a @ b) = calls_of a @ calls_of b"
  by (induction a rule: calls_of.induct) simp_all

lemma calls_of_map_Call: "calls_of (map Call cs) = cs"
  by (induction cs) simp_all

lemma read_loop_calls:
  "CHR 0x0A \<notin> set buffer \<Longrightarrow>
     calls_of (read_loop rt buffer timeline)
       = concat (map (process_line rt) (complete_lines (buffer @ wire_text timeline)))"
proof (induction timeline arbitrary: buffer)
  case Nil
  then show ?case by (simp add: wire_text_def complete_lines_def split_nl_no_newline)
next
  case (Cons a rest)
  show ?case
  proof (cases a)
    case (Chunk c)
    have "calls_of (read_loop rt (last (split_nl (buffer @ c))) rest)
        = concat (map (process_line rt)
            (complete_lines (last (split_nl (buffer @ c)) @ wire_text rest)))"
      by (rule Cons.IH) (rule last_split_nl_no_newline)
    moreover have "complete_lines (buffer @ wire_text (Chunk c # rest))
        = complete_lines (buffer @ c)
          @ complete_lines (last (split_nl (buffer @ c)) @ wire_text rest)"
      using complete_lines_append [of "buffer @ c" "wire_text rest"]
      by (simp add: wire_text_def)
    ultimately show ?thesis
      using Chunk by (simp add: read_step_eq calls_of_append calls_of_map_Call)
  next
    case (Elsewhere e)
    then show ?thesis
      using Cons.IH [OF Cons.prems] by (simp add: wire_text_def)
  qed
qed

lemma split_nl_join:
  "concat (map (\<lambda>l. l @ [CHR 0x0A]) (butlast (split_nl s))) @ last (split_nl s) = s"
proof (induction s)
  case Nil
  show ?case by simp
next
  case (Cons c cs)
  obtain l ls where s: "split_nl cs = l # ls"
    using split_nl_nonempty [of cs] by (cases "split_nl cs") auto
  with Cons show ?case
    by (cases "ls = []") auto
qed









lemma dispatch_unfold:
  "dispatch rt data =
     (if field data ''type'' = Some (JStr ''token'') then [OnToken (field data ''content'')]
      else if field data ''type'' = Some (JStr ''conversation_id'')
        then [OnConversationId (field data ''id'')]
      else if field data ''type'' = Some (JStr ''done'')
        then [OnDone (field data ''conversation_id'')]
      else if field data ''type'' = Some (JStr ''error'') then [OnError (field data ''message'')]
      else if truthy rt (field data ''error'') then [OnError (field data ''error'')]
      else [])"
  by (cases data) simp_all

lemma streamChat_body:
  assumes "ok res" and "res_body res = Some (timeline, ending)"
  shows "fst (streamChat rt (Resolves res)) = read_loop rt [] timeline"
    and "snd (streamChat rt (Resolves res))
           = (case ending of Closed \<Rightarrow> None | ReadRejects err \<Rightarrow> Some err)"
  using assms by (simp_all add: streamChat_def)

lemma streamChat_calls:
  assumes "ok res" and "res_body res = Some (timeline, ending)"
  shows "calls_of (fst (streamChat rt (Resolves res)))
           = concat (map (process_line rt) (complete_lines (wire_text timeline)))"
  using read_loop_calls [of "[]" rt timeline] streamChat_body(1) [OF assms, of rt]
  by simp




















section \<open>Stream-event parsing\<close>

text \<open>
  Claim C4. Parsing the events of the stream is total. A line that does not start with
  \<open>data: \<close>, a line whose payload \<open>JSON.parse\<close> rejects, and a line whose parsed value
  has no recognised shape invoke no callback; a line with a recognised shape invokes its
  own callback, once, with the matching property: \<open>onToken\<close> for a token,
  \<open>onConversationId\<close> for a conversation id, \<open>onDone\<close> for a done, \<open>onError\<close> for an
  error (or for any other value with a truthy \<open>error\<close> property). No line ends the loop:
  the callbacks of a whole response are those of all its complete lines, in order, and
  whether \<open>streamChat\<close> returns or throws after them is decided by the way the stream
  ends alone.
\<close>

theorem process_line_total:
  "(\<not> startsWith line ''data: '' \<longrightarrow> process_line rt line = [])
   \<and> (JSON_parse rt (drop 6 line) = None \<longrightarrow> process_line rt line = [])
   \<and> (\<forall>data. JSON_parse rt (drop 6 line) = Some data \<and> \<not> recognised rt data \<longrightarrow>
         process_line rt line = [])
   \<and> (\<forall>data. startsWith line ''data: '' \<and> JSON_parse rt (drop 6 line) = Some data \<longrightarrow>
         (field data ''type'' = Some (JStr ''token'') \<longrightarrow>
            process_line rt line = [OnToken (field data ''content'')])
       \<and> (field data ''type'' = Some (JStr ''conversation_id'') \<longrightarrow>
            process_line rt line = [OnConversationId (field data ''id'')])
       \<and> (field data ''type'' = Some (JStr ''done'') \<longrightarrow>
            process_line rt line = [OnDone (field data ''conversation_id'')])
       \<and> (field data ''type'' = Some (JStr ''error'') \<longrightarrow>
            process_line rt line = [OnError (field data ''message'')])
       \<and> (field data ''type'' \<noteq> Some (JStr ''token'')
          \<and> field data ''type'' \<noteq> Some (JStr ''conversation_id'')
          \<and> field data ''type'' \<noteq> Some (JStr ''done'')
          \<and> field data ''type'' \<noteq> Some (JStr ''error'')
          \<and> truthy rt (field data ''error'') \<longrightarrow>
            process_line rt line = [OnError (field data ''error'')]))
   \<and> (\<forall>res timeline ending. ok res \<and> res_body res = Some (timeline, ending) \<longrightarrow>
         calls_of (fst (streamChat rt (Resolves res)))
           = concat (map (process_line rt) (complete_lines (wire_text timeline)))
         \<and> snd (streamChat rt (Resolves res))
           = (case ending of Closed \<Rightarrow> None | ReadRejects err \<Rightarrow> Some err))"
proof -
  have ignored1: "process_line rt line = []" if "\<not> startsWith line ''data: ''"
    using that by (simp add: process_line_def)
  have ignored2: "process_line rt line = []" if "JSON_parse rt (drop 6 line) = None"
    using that by (simp add: process_line_def)
  have ignored3: "process_line rt line = []"
    if "JSON_parse rt (drop 6 line) = Some data \<and> \<not> recognised rt data" for data
    using that by (simp add: process_line_def dispatch_unfold recognised_def)
  have pl: "process_line rt line = dispatch rt data"
    if "startsWith line ''data: '' \<and> JSON_parse rt (drop 6 line) = Some data" for data
    using that by (simp add: process_line_def)
  show ?thesis
    using ignored1 ignored2 ignored3
    by (auto simp: pl dispatch_unfold streamChat_calls streamChat_body(2))
qed

theorem process_line_total_witness:
  "process_line example_runtime '': keep-alive'' = []
   \<and> process_line example_runtime (''data: '' @ ''oops'') = []
   \<and> process_line example_runtime (''data: '' @ ping) = []
   \<and> process_line example_runtime (''data: '' @ ''null'') = []
   \<and> process_line example_runtime (''data: '' @ token_He) = [OnToken (Some (JStr ''He''))]
   \<and> process_line example_runtime (''data: '' @ conversation_c1)
       = [OnConversationId (Some (JStr ''c1''))]
   \<and> process_line example_runtime (''data: '' @ done_c1) = [OnDone (Some (JStr ''c1''))]
   \<and> process_line example_runtime (''data: '' @ error_boom) = [OnError (Some (JStr ''boom''))]
   \<and> process_line example_runtime (''data: '' @ error_only) = [OnError (Some (JStr ''bad''))]
   \<and> calls_of (fst (streamChat example_runtime
        (Resolves (example_response noisy_timeline Closed))))
       = [OnToken (Some (JStr ''He''))]
   \<and> snd (streamChat example_runtime (Resolves (example_response noisy_timeline Closed)))
       = None"
proof -
  note t = process_line_total [where rt = example_runtime]
  have 1: "\<not> startsWith '': keep-alive'' ''data: ''"
    by code_simp
  have 2: "JSON_parse example_runtime (drop 6 (''data: '' @ ''oops'')) = None"
    by code_simp
  have 3: "JSON_parse example_runtime (drop 6 (''data: '' @ ping))
             = Some (JObj [(''type'', JStr ''ping'')])
           \<and> \<not> recognised example_runtime (JObj [(''type'', JStr ''ping'')])"
    by code_simp
  have 4: "JSON_parse example_runtime (drop 6 (''data: '' @ ''null'')) = Some JNull
           \<and> \<not> recognised example_runtime JNull"
    by code_simp
  have r1: "process_line example_runtime '': keep-alive'' = []"
    using t [where line = "'': keep-alive''"] 1 by blast
  have r2: "process_line example_runtime (''data: '' @ ''oops'') = []"
    using t [where line = "''data: '' @ ''oops''"] 2 by blast
  have r3: "process_line example_runtime (''data: '' @ ping) = []"
    using t [where line = "''data: '' @ ping"] 3 by blast
  have r4: "process_line example_runtime (''data: '' @ ''null'') = []"
    using t [where line = "''data: '' @ ''null''"] 4 by blast
  have d: "(field data ''type'' = Some (JStr ''token'') \<longrightarrow>
            process_line example_runtime line = [OnToken (field data ''content'')])
       \<and> (field data ''type'' = Some (JStr ''conversation_id'') \<longrightarrow>
            process_line example_runtime line = [OnConversationId (field data ''id'')])
       \<and> (field data ''type'' = Some (JStr ''done'') \<longrightarrow>
            process_line example_runtime line = [OnDone (field data ''conversation_id'')])
       \<and> (field data ''type'' = Some (JStr ''error'') \<longrightarrow>
            process_line example_runtime line = [OnError (field data ''message'')])
       \<and> (field data ''type'' \<noteq> Some (JStr ''token'')
          \<and> field data ''type'' \<noteq> Some (JStr ''conversation_id'')
          \<and> field data ''type'' \<noteq> Some (JStr ''done'')
          \<and> field data ''type'' \<noteq> Some (JStr ''error'')
          \<and> truthy example_runtime (field data ''error'') \<longrightarrow>
            process_line example_runtime line = [OnError (field data ''error'')])"
    if "startsWith line ''data: '' \<and> JSON_parse example_runtime (drop 6 line) = Some data"
    for line data
    using t [where line = line] that by blast
  have p5: "startsWith (''data: '' @ token_He) ''data: ''
      \<and> JSON_parse example_runtime (drop 6 (''data: '' @ token_He))
        = Some (JObj [(''type'', JStr ''token''), (''content'', JStr ''He'')])"
    by code_simp
  have r5: "process_line example_runtime (''data: '' @ token_He) = [OnToken (Some (JStr ''He''))]"
    using d [OF p5] by simp
  have p6: "startsWith (''data: '' @ conversation_c1) ''data: ''
      \<and> JSON_parse example_runtime (drop 6 (''data: '' @ conversation_c1))
        = Some (JObj [(''type'', JStr ''conversation_id''), (''id'', JStr ''c1'')])"
    by code_simp
  have r6: "process_line example_runtime (''data: '' @ conversation_c1)
      = [OnConversationId (Some (JStr ''c1''))]"
    using d [OF p6] by simp
  have p7: "startsWith (''data: '' @ done_c1) ''data: ''
      \<and> JSON_parse example_runtime (drop 6 (''data: '' @ done_c1))
        = Some (JObj [(''type'', JStr ''done''), (''conversation_id'', JStr ''c1'')])"
    by code_simp
  have r7: "process_line example_runtime (''data: '' @ done_c1) = [OnDone (Some (JStr ''c1''))]"
    using d [OF p7] by simp
  have p8: "startsWith (''data: '' @ error_boom) ''data: ''
      \<and> JSON_parse example_runtime (drop 6 (''data: '' @ error_boom))
        = Some (JObj [(''type'', JStr ''error''), (''message'', JStr ''boom'')])"
    by code_simp
  have r8: "process_line example_runtime (''data: '' @ error_boom)
      = [OnError (Some (JStr ''boom''))]"
    using d [OF p8] by simp
  have p9: "startsWith (''data: '' @ error_only) ''data: ''
      \<and> JSON_parse example_runtime (drop 6 (''data: '' @ error_only))
        = Some (JObj [(''error'', JStr ''bad'')])"
    by code_simp
  have r9: "process_line example_runtime (''data: '' @ error_only)
      = [OnError (Some (JStr ''bad''))]"
    using d [OF p9] by simp
  have b: "ok (example_response noisy_timeline Closed)
           \<and> res_body (example_response noisy_timeline Closed) = Some (noisy_timeline, Closed)"
    by (simp add: example_response_def)
  have e: "concat (map (process_line example_runtime) (complete_lines (wire_text noisy_timeline)))
           = [OnToken (Some (JStr ''He''))]"
    by code_simp
  have "\<forall>res timeline ending. ok res \<and> res_body res = Some (timeline, ending) \<longrightarrow>
         calls_of (fst (streamChat example_runtime (Resolves res)))
           = concat (map (process_line example_runtime) (complete_lines (wire_text timeline)))
         \<and> snd (streamChat example_runtime (Resolves res))
           = (case ending of Closed \<Rightarrow> None | ReadRejects err \<Rightarrow> Some err)"
    using t [where line = "[]"] by blast
  from this [rule_format, OF b]
  have r10: "calls_of (fst (streamChat example_runtime
        (Resolves (example_response noisy_timeline Closed))))
       = [OnToken (Some (JStr ''He''))]
     \<and> snd (streamChat example_runtime (Resolves (example_response noisy_timeline Closed)))
       = None"
    by (simp add: e)
  from r1 r2 r3 r4 r5 r6 r7 r8 r9 r10 show ?thesis by blast
qed




section \<open>Token order\<close>




section \<open>Cancellation\<close>




section \<open>The settings panel: free-only models\<close>




lemma handleSettingsChange_options_only:
  "model (handleSettingsChange s (no_change\<lparr>new_provider_options := opts\<rparr>)) = model s"
  "provider (handleSettingsChange s (no_change\<lparr>new_provider_options := opts\<rparr>)) = provider s"
  by (simp_all add: handleSettingsChange_def no_change_def or_else_def)

lemma free_only_change_model:
  "model (settings (free_only_change st p checked)) = model (settings st)"
  "provider (settings (free_only_change st p checked)) = provider (settings st)"
  by (simp_all add: free_only_change_def updateOption_def Let_def handleSettingsChange_options_only)




lemma getOption_updateOption_same:
  "getOption (handleSettingsChange s (updateOption s n key b)) n key = b"
  by (cases key)
     (simp_all add: getOption_def updateOption_def handleSettingsChange_def no_change_def
        or_else_def flag_def Let_def)

lemma getOption_updateOption_other:
  "key' \<noteq> key \<or> n' \<noteq> n \<Longrightarrow>
     getOption (handleSettingsChange s (updateOption s n key b)) n' key' = getOption s n' key'"
  by (cases key; cases key')
     (auto simp: getOption_def updateOption_def handleSettingsChange_def no_change_def
        or_else_def flag_def Let_def split: option.splits)

lemma card_click_settings:
  "\<not> isSelected st p \<Longrightarrow>
     provider (settings (card_click st p)) = name p
     \<and> model (settings (card_click st p))
         = (if getOption (settings st) (name p) AutoChoose then ''openrouter/auto''
            else default_model p)"
  by (simp add: card_click_def Let_def handleSettingsChange_def no_change_def or_else_def)

lemma card_click_selected: "isSelected st p \<Longrightarrow> settings (card_click st p) = settings st"
  by (simp add: card_click_def Let_def)

lemma auto_choose_change_settings:
  "isSelected st p \<Longrightarrow>
     model (settings (auto_choose_change st p checked))
       = (if checked then ''openrouter/auto'' else default_model p)
     \<and> provider (settings (auto_choose_change st p checked)) = provider (settings st)
     \<and> getOption (settings (auto_choose_change st p checked)) (name p) AutoChoose = checked"
  by (simp add: auto_choose_change_def Let_def getOption_updateOption_same)
     (simp add: handleSettingsChange_def no_change_def or_else_def updateOption_def
        getOption_def flag_def Let_def)

text \<open>
  While an expanded card is the card of the selected provider, the "use provider" button,
  which the panel renders in the details of a provider that is not the selected one, is
  not there.
\<close>

lemma use_provider_not_rendered: "panel_inv st \<Longrightarrow> \<not> rendered st p ClickUseProvider"
  by (auto simp: rendered_def panel_inv_def isExpanded_def isSelected_def split: option.splits)

lemma panel_step_provider:
  assumes "panel_inv st"
    and "provider (settings (panel_step st (p, a))) \<noteq> provider (settings st)"
  shows "a = ClickCard \<and> \<not> isSelected st p \<and> provider (settings (panel_step st (p, a))) = name p"
proof (cases a)
  case ClickCard
  with assms show ?thesis
    using card_click_settings [of st p] card_click_selected [of st p]
    by (cases "isSelected st p") (auto simp: panel_step_def rendered_def)
next
  case (ChangeFreeOnly b)
  with assms show ?thesis
    by (auto simp: panel_step_def free_only_change_model split: if_splits)
next
  case (ChangeAutoChoose b)
  with assms show ?thesis
    by (auto simp: panel_step_def auto_choose_change_def Let_def handleSettingsChange_def
          no_change_def or_else_def updateOption_def split: if_splits)
next
  case (ClickModel m)
  with assms show ?thesis
    by (auto simp: panel_step_def model_click_def handleSettingsChange_def
          no_change_def or_else_def split: if_splits)
next
  case ClickUseProvider
  with assms show ?thesis
    by (auto simp: panel_step_def rendered_def panel_inv_def isExpanded_def isSelected_def
          split: if_splits option.splits)next
  case (EditModelInput v)
  with assms show ?thesis
    by (auto simp: panel_step_def model_input_change_def handleSettingsChange_def
          no_change_def or_else_def split: if_splits)
next
  case (ChangeSearch q)
  with assms show ?thesis
    by (auto simp: panel_step_def split: if_splits)
next
  case (RefreshModels fetched)
  with assms show ?thesis
    by (auto simp: panel_step_def handleRefreshModels_def split: if_splits promise.splits)
next
  case (RunTest fetched)
  with assms show ?thesis
    by (auto simp: panel_step_def test_def Let_def split: if_splits promise.splits)
next
  case (CommitModelName mi)
  with assms show ?thesis
    by (auto simp: panel_step_def model_name_commit_def handleSettingsChange_def
          no_change_def or_else_def split: if_splits)
next
  case (ChangeParameter k v)
  with assms show ?thesis
    by (cases k)
       (auto simp: panel_step_def parameter_change_def handleSettingsChange_def
          no_change_def or_else_def split: if_splits)
qed

lemma panel_step_inv: "panel_inv st \<Longrightarrow> panel_inv (panel_step st (p, a))"
proof (cases a)
  case ClickCard
  assume "panel_inv st"
  with ClickCard show ?thesis
    using card_click_settings [of st p] card_click_selected [of st p]
    by (cases "isSelected st p")
       (auto simp: panel_step_def rendered_def panel_inv_def card_click_def Let_def
          isSelected_def isExpanded_def split: option.splits)
next
  case (ChangeFreeOnly b)
  assume "panel_inv st"
  with ChangeFreeOnly show ?thesis
    by (auto simp: panel_step_def panel_inv_def free_only_change_def updateOption_def Let_def
          handleSettingsChange_options_only split: option.splits)
next
  case (ChangeAutoChoose b)
  assume "panel_inv st"
  with ChangeAutoChoose show ?thesis
    by (auto simp: panel_step_def panel_inv_def auto_choose_change_def Let_def
          handleSettingsChange_def no_change_def or_else_def updateOption_def
          split: option.splits)
next
  case (ClickModel m)
  assume "panel_inv st"
  with ClickModel show ?thesis
    by (auto simp: panel_step_def panel_inv_def model_click_def handleSettingsChange_def
          no_change_def or_else_def split: option.splits)
next
  case ClickUseProvider
  assume "panel_inv st"
  with ClickUseProvider show ?thesis
    by (auto simp: panel_step_def rendered_def panel_inv_def isExpanded_def isSelected_def
          split: option.splits)next
  case (EditModelInput v)
  assume "panel_inv st"
  with EditModelInput show ?thesis
    by (auto simp: panel_step_def panel_inv_def model_input_change_def handleSettingsChange_def
          no_change_def or_else_def split: option.splits)
next
  case (ChangeSearch q)
  assume "panel_inv st"
  with ChangeSearch show ?thesis
    by (auto simp: panel_step_def panel_inv_def split: option.splits)
next
  case (RefreshModels fetched)
  assume "panel_inv st"
  with RefreshModels show ?thesis
    by (auto simp: panel_step_def panel_inv_def handleRefreshModels_def
          split: option.splits promise.splits)
next
  case (RunTest fetched)
  assume "panel_inv st"
  with RunTest show ?thesis
    by (auto simp: panel_step_def panel_inv_def test_def Let_def
          split: option.splits promise.splits)
next
  case (CommitModelName mi)
  assume "panel_inv st"
  with CommitModelName show ?thesis
    by (auto simp: panel_step_def panel_inv_def model_name_commit_def handleSettingsChange_def
          no_change_def or_else_def split: option.splits)
next
  case (ChangeParameter k v)
  assume "panel_inv st"
  with ChangeParameter show ?thesis
    by (cases k)
       (auto simp: panel_step_def panel_inv_def parameter_change_def handleSettingsChange_def
          no_change_def or_else_def split: option.splits)
qed

lemma panel_run_inv: "panel_inv st \<Longrightarrow> panel_inv (foldl panel_step st acts)"
proof (induction acts arbitrary: st)
  case Nil
  then show ?case by simp
next
  case (Cons pa acts)
  then show ?case
    using panel_step_inv [of st "fst pa" "snd pa"] by simp
qed

text \<open>
  Claim C6. In every state of the settings panel, reached from its opening by any use of
  its controls, and so whatever the \<open>free_only\<close> options are: a step that selects
  another provider whose \<open>auto_choose\<close> option is set leaves that provider selected with
  the model \<open>openrouter/auto\<close>, not a model of the catalog; that step is the click on
  the provider's card; and clearing the \<open>auto_choose\<close> check box of a provider sets the
  model to that provider's default model and the option to false.
\<close>

theorem auto_choose_precedence:
  assumes "expanded st0 = None" and "st = foldl panel_step st0 acts"
  shows "(provider (settings (panel_step st (p, a))) \<noteq> provider (settings st)
          \<and> getOption (settings st) (name p) AutoChoose \<longrightarrow>
            provider (settings (panel_step st (p, a))) = name p
            \<and> model (settings (panel_step st (p, a))) = ''openrouter/auto'')
     \<and> (\<not> isSelected st p \<and> getOption (settings st) (name p) AutoChoose \<longrightarrow>
            provider (settings (panel_step st (p, ClickCard))) = name p
            \<and> model (settings (panel_step st (p, ClickCard))) = ''openrouter/auto'')
     \<and> (rendered st p (ChangeAutoChoose False) \<longrightarrow>
            model (settings (panel_step st (p, ChangeAutoChoose False))) = default_model p
            \<and> \<not> getOption (settings (panel_step st (p, ChangeAutoChoose False))) (name p)
                  AutoChoose)"
proof -
  have inv: "panel_inv st"
    unfolding assms(2) using assms(1) by (intro panel_run_inv) (simp add: panel_inv_def)
  have A: "provider (settings (panel_step st (p, a))) = name p
            \<and> model (settings (panel_step st (p, a))) = ''openrouter/auto''"
    if "provider (settings (panel_step st (p, a))) \<noteq> provider (settings st)
          \<and> getOption (settings st) (name p) AutoChoose"
  proof -
    from panel_step_provider [OF inv, of p a] that
    have a: "a = ClickCard" and n: "\<not> isSelected st p" by simp_all
    then show ?thesis
      using that card_click_settings [OF n] by (simp add: panel_step_def rendered_def)
  qed
  have B: "provider (settings (panel_step st (p, ClickCard))) = name p
            \<and> model (settings (panel_step st (p, ClickCard))) = ''openrouter/auto''"
    if "\<not> isSelected st p \<and> getOption (settings st) (name p) AutoChoose"
    using that card_click_settings [of st p] by (simp add: panel_step_def rendered_def)
  have C: "model (settings (panel_step st (p, ChangeAutoChoose False))) = default_model p
            \<and> \<not> getOption (settings (panel_step st (p, ChangeAutoChoose False))) (name p)
                  AutoChoose"
    if "rendered st p (ChangeAutoChoose False)"
  proof -
    from that inv have "isSelected st p"
      by (auto simp: rendered_def isExpanded_def isSelected_def panel_inv_def)
    with that show ?thesis
      using auto_choose_change_settings [of st p False] by (simp add: panel_step_def)
  qed
  from A B C show ?thesis by blast
qed

theorem auto_choose_precedence_witness:
  "provider (settings (panel_step auto_panel (free_catalog, ClickCard))) = ''openrouter''
   \<and> model (settings (panel_step auto_panel (free_catalog, ClickCard))) = ''openrouter/auto''
   \<and> model (settings (panel_step (foldl panel_step auto_panel [(free_catalog, ClickCard)])
        (free_catalog, ChangeAutoChoose False))) = ''d''
   \<and> \<not> getOption (settings (panel_step (foldl panel_step auto_panel [(free_catalog, ClickCard)])
        (free_catalog, ChangeAutoChoose False))) ''openrouter'' AutoChoose"
proof -
  have e: "expanded auto_panel = None"
    by code_simp
  have 1: "provider (settings (panel_step auto_panel (free_catalog, ClickCard)))
             \<noteq> provider (settings auto_panel)
           \<and> getOption (settings auto_panel) (name free_catalog) AutoChoose"
    by code_simp
  have 2: "rendered (foldl panel_step auto_panel [(free_catalog, ClickCard)]) free_catalog
             (ChangeAutoChoose False)"
    by code_simp
  have n: "name free_catalog = ''openrouter''" "default_model free_catalog = ''d''"
    by code_simp+
  from auto_choose_precedence [OF e, of auto_panel "[]" free_catalog ClickCard] 1
  have a: "provider (settings (panel_step auto_panel (free_catalog, ClickCard)))
             = name free_catalog
           \<and> model (settings (panel_step auto_panel (free_catalog, ClickCard)))
             = ''openrouter/auto''"
    by simp
  from auto_choose_precedence [OF e refl, of "[(free_catalog, ClickCard)]" free_catalog] 2
  have b: "model (settings (panel_step (foldl panel_step auto_panel [(free_catalog, ClickCard)])
              (free_catalog, ChangeAutoChoose False))) = default_model free_catalog
           \<and> \<not> getOption (settings (panel_step
                  (foldl panel_step auto_panel [(free_catalog, ClickCard)])
                  (free_catalog, ChangeAutoChoose False))) (name free_catalog) AutoChoose"
    by blast
  have 3: "\<not> isSelected auto_panel free_catalog
           \<and> getOption (settings auto_panel) (name free_catalog) AutoChoose"
    by code_simp
  from auto_choose_precedence [OF e, of auto_panel "[]" free_catalog] 3
  have c: "model (settings (panel_step auto_panel (free_catalog, ClickCard)))
             = ''openrouter/auto''"
    by simp
  from a b c show ?thesis
    by (simp add: n)
qed

section \<open>Credentials in the provider list\<close>

text \<open>
  The front end hands on what the response holds: the panel's API key field of a listed
  provider shows the \<open>api_key\<close> of its record, whatever the back end put there.
\<close>

lemma listProviders_ok:
  "ok res \<Longrightarrow> listProviders (Resolves res) = res_json res"
  by (simp add: listProviders_def fetchJson_def)

lemma api_key_passthrough:
  assumes "ok res" and "res_json res = Resolves listed"
  shows "map api_key_field (providers (loadProviders st (Resolves res))) = map api_key listed"
  using assms by (simp add: loadProviders_def listProviders_ok api_key_field_def)

lemma filter_blank:
  "filter P (map (\<lambda>p. p\<lparr>api_key := k\<rparr>) xs) = map (\<lambda>p. p\<lparr>api_key := k\<rparr>) (filter (\<lambda>p. P (p\<lparr>api_key := k\<rparr>)) xs)"
  by (induction xs) simp_all

lemma registry_list_blank:
  "registry_list stored
     = filter (\<lambda>p. \<not> is_custom p) (map (\<lambda>p. p\<lparr>api_key := []\<rparr>) stored)
       @ filter is_custom (map (\<lambda>p. p\<lparr>api_key := []\<rparr>) stored)"
  by (simp add: registry_list_def filter_blank)

text \<open>
  Claim C7. Against the provider-list operation as the spec describes it: for every
  registry, \<open>listProviders\<close> resolves with the listed records, every provider the hook
  then holds has a blank API key, and so has the API key field the panel renders for it;
  and the response, and what is rendered from it, are the same for any two registries that
  differ only in their credentials.
\<close>

theorem list_carries_no_credential:
  "listProviders (Resolves (list_response stored)) = Resolves (registry_list stored)
   \<and> (\<forall>p \<in> set (providers (loadProviders st (Resolves (list_response stored)))).
         api_key p = [] \<and> api_key_field p = [])
   \<and> (\<forall>stored'. same_but_credentials stored stored' \<longrightarrow>
         registry_list stored' = registry_list stored
         \<and> map api_key_field (providers (loadProviders st (Resolves (list_response stored'))))
           = map api_key_field (providers (loadProviders st (Resolves (list_response stored)))))"
proof -
  have l: "listProviders (Resolves (list_response stored')) = Resolves (registry_list stored')"
    for stored'
    by (simp add: listProviders_ok list_response_def)
  have p: "providers (loadProviders st (Resolves (list_response stored'))) = registry_list stored'"
    for stored'
    by (simp add: loadProviders_def l)
  have b: "api_key p = [] \<and> api_key_field p = []" if "p \<in> set (registry_list stored)" for p
    using that by (auto simp: registry_list_def api_key_field_def)
  have n: "registry_list stored' = registry_list stored"
    if "same_but_credentials stored stored'" for stored'
    using that by (simp add: registry_list_blank same_but_credentials_def)
  show ?thesis
    using l [of stored] b n by (simp add: p)
qed

theorem list_carries_no_credential_witness:
  "map name (providers (loadProviders \<lparr>providers = [], providers_isLoading = True\<rparr>
      (Resolves (list_response example_registry)))) = [''openrouter'', ''mine'']
   \<and> map api_key_field (providers (loadProviders \<lparr>providers = [], providers_isLoading = True\<rparr>
      (Resolves (list_response example_registry)))) = [[], []]
   \<and> same_but_credentials example_registry
        (map (\<lambda>p. p\<lparr>api_key := ''other''\<rparr>) example_registry)
   \<and> registry_list (map (\<lambda>p. p\<lparr>api_key := ''other''\<rparr>) example_registry)
       = registry_list example_registry"
proof -
  have s: "same_but_credentials example_registry
        (map (\<lambda>p. p\<lparr>api_key := ''other''\<rparr>) example_registry)"
    by (simp add: same_but_credentials_def example_registry_def)
  have e: "map name (providers (loadProviders \<lparr>providers = [], providers_isLoading = True\<rparr>
      (Resolves (list_response example_registry)))) = [''openrouter'', ''mine'']"
    by code_simp
  have l: "length (providers (loadProviders \<lparr>providers = [], providers_isLoading = True\<rparr>
      (Resolves (list_response example_registry)))) = 2"
    by code_simp
  note t = list_carries_no_credential [of example_registry
      "\<lparr>providers = [], providers_isLoading = True\<rparr>"]
  from t have a: "\<forall>p \<in> set (providers (loadProviders \<lparr>providers = [], providers_isLoading = True\<rparr>
      (Resolves (list_response example_registry)))). api_key_field p = []"
    by blast
  have m: "map api_key_field (providers (loadProviders \<lparr>providers = [], providers_isLoading = True\<rparr>
      (Resolves (list_response example_registry)))) = [[], []]"
  proof -
    obtain x y where xy: "providers (loadProviders \<lparr>providers = [], providers_isLoading = True\<rparr>
      (Resolves (list_response example_registry))) = [x, y]"
      using l by (auto simp: length_Suc_conv numeral_2_eq_2)
    with a show ?thesis by simp
  qed
  from t s have r: "registry_list (map (\<lambda>p. p\<lparr>api_key := ''other''\<rparr>) example_registry)
       = registry_list example_registry"
    by blast
  from e m s r show ?thesis by blast
qed

end
